theory Spec2Isabelle
  imports Main "HOL-Library.Word"
begin

section \<open>Label print console: the browser-side controller of static/app.js\<close>

text \<open>
  The script binds handlers to a search box, a suggestion list, a preview image, a
  count field, an expiry field, a store-name field, a metadata region and a print
  button. Every handler is modelled as a function from the page state to the page
  state. What the browser does on the script's behalf is part of the state: the pending
  timers of \<open>setTimeout\<close>, the log of network requests the script has started, and
  the log of \<open>alert\<close> messages.
\<close>

subsection \<open>Strings\<close>

text \<open>
  A string of the script is a sequence of UTF-16 code units. A surrogate that is not
  half of a pair can stand in it; such a string is not well formed. \<open>js\<close> writes an
  ASCII text as a string.
\<close>

type_synonym code_unit = "16 word"

type_synonym jsstring = "code_unit list"

definition js :: "string \<Rightarrow> jsstring" where
  "js s = map (\<lambda>c. of_nat (of_char c)) s"

definition em_dash :: jsstring where
  "em_dash = [0x2014]"

definition rupee :: jsstring where
  "rupee = [0x20B9]"

definition ellipsis :: jsstring where
  "ellipsis = [0x2026]"

text \<open>
  The white space and line terminator code points of ECMAScript, which
  \<open>String.prototype.trim\<close> and \<open>parseInt\<close> strip.
\<close>

definition is_ws :: "code_unit \<Rightarrow> bool" where
  "is_ws u =
     (u \<in> set [0x09, 0x0A, 0x0B, 0x0C, 0x0D, 0x20, 0xA0, 0x1680, 0x2028, 0x2029, 0x202F,
                0x205F, 0x3000, 0xFEFF]
      \<or> (0x2000 \<le> u \<and> u \<le> 0x200A))"

definition trimStart :: "jsstring \<Rightarrow> jsstring" where
  "trimStart s = dropWhile is_ws s"

definition trimEnd :: "jsstring \<Rightarrow> jsstring" where
  "trimEnd s = rev (dropWhile is_ws (rev s))"

definition trim :: "jsstring \<Rightarrow> jsstring" where
  "trim s = trimEnd (trimStart s)"

definition leading :: "code_unit \<Rightarrow> bool" where
  "leading u = (0xD800 \<le> u \<and> u \<le> 0xDBFF)"

definition trailing :: "code_unit \<Rightarrow> bool" where
  "trailing u = (0xDC00 \<le> u \<and> u \<le> 0xDFFF)"

text \<open>
  The code points of a string: a leading surrogate followed by a trailing one is
  one code point, and every other code unit is a code point by itself. Each comes with
  the flag that it is an unpaired surrogate.
\<close>

fun code_points :: "jsstring \<Rightarrow> (bool \<times> int) list" where
  "code_points [] = []"
| "code_points [u] = [(leading u \<or> trailing u, uint u)]"
| "code_points (u # v # vs) =
     (if leading u \<and> trailing v
      then (False, 0x10000 + (uint u - 0xD800) * 0x400 + (uint v - 0xDC00)) # code_points vs
      else (leading u \<or> trailing u, uint u) # code_points (v # vs))"

text \<open>\<open>String.prototype.isWellFormed\<close>: no surrogate is unpaired.\<close>

definition well_formed :: "jsstring \<Rightarrow> bool" where
  "well_formed s = list_all (\<lambda>(unpaired, cp). \<not> unpaired) (code_points s)"

text \<open>The UTF-8 octets of a code point, and the UTF-16 code units of one.\<close>

definition utf8 :: "int \<Rightarrow> int list" where
  "utf8 cp =
     (if cp < 0x80 then [cp]
      else if cp < 0x800 then [0xC0 + cp div 0x40, 0x80 + cp mod 0x40]
      else if cp < 0x10000 then
        [0xE0 + cp div 0x1000, 0x80 + cp div 0x40 mod 0x40, 0x80 + cp mod 0x40]
      else
        [0xF0 + cp div 0x40000, 0x80 + cp div 0x1000 mod 0x40, 0x80 + cp div 0x40 mod 0x40,
         0x80 + cp mod 0x40])"

definition utf16 :: "int \<Rightarrow> jsstring" where
  "utf16 cp =
     (if cp < 0x10000 then [of_int cp]
      else [of_int (0xD800 + (cp - 0x10000) div 0x400), of_int (0xDC00 + (cp - 0x10000) mod 0x400)])"

subsection \<open>Numbers the script computes\<close>

text \<open>
  The print count is the one number the script computes. It is NaN, an infinity, or a
  double whose value is an integer; \<open>Fin n\<close> is the double of value \<open>n\<close>. Minus zero is
  not told apart from zero: \<open>Math.max(1, x)\<close> is 1 for both, and nothing else is done
  with the number that \<open>parseInt\<close> returns.
\<close>

datatype jsnum = NaN | PosInf | NegInf | Fin int

function bit_length :: "int \<Rightarrow> nat" where
  "bit_length n = (if n \<le> 0 then 0 else Suc (bit_length (n div 2)))"
  by pat_completeness auto
termination
  by (relation "measure nat") auto

declare bit_length.simps [simp del]

text \<open>
  The double nearest to a non-negative integer, ties to the even significand; \<open>None\<close> when
  the number rounds beyond the largest double, to infinity. A number of at most 53
  bits, one below \<open>2 ^ 53\<close>, is a double as it is; a longer one keeps its 53 leading
  bits, rounded; a result of more than 1024 bits, one from \<open>2 ^ 1024\<close> on, is
  infinite.
\<close>

definition round_double :: "int \<Rightarrow> int option" where
  "round_double m =
     (if bit_length m \<le> 53 then Some m
      else
        (let e = bit_length m - 53;
             q = m div 2 ^ e;
             r = m mod 2 ^ e;
             h = 2 ^ (e - 1);
             v = (if h < r \<or> (r = h \<and> odd q) then q + 1 else q) * 2 ^ e
         in if 1024 < bit_length v then None else Some v))"

definition is_digit :: "code_unit \<Rightarrow> bool" where
  "is_digit u = (0x30 \<le> u \<and> u \<le> 0x39)"

text \<open>The value of a digit string, most significant digit first.\<close>

definition digits_val :: "jsstring \<Rightarrow> int" where
  "digits_val ds = foldl (\<lambda>acc u. 10 * acc + (uint u - 0x30)) 0 ds"

text \<open>
  \<open>parseInt(s, 10)\<close>: leading white space is skipped, one sign is read, then the longest
  run of decimal digits; with no digit the result is NaN. Radix 10 strips no \<open>0x\<close>. The
  value of the digits is rounded to a double. (The standard lets an implementation
  replace the digits after the twentieth by zeros first; the model does not.)
\<close>

definition parseInt10 :: "jsstring \<Rightarrow> jsnum" where
  "parseInt10 s =
     (let t = trimStart s;
          neg = (t \<noteq> [] \<and> hd t = 0x2D);
          u = (if t \<noteq> [] \<and> (hd t = 0x2B \<or> hd t = 0x2D) then tl t else t);
          z = takeWhile is_digit u
      in if z = [] then NaN
         else (case round_double (digits_val z) of
                 None \<Rightarrow> if neg then NegInf else PosInf
               | Some v \<Rightarrow> Fin (if neg then - v else v)))"

text \<open>\<open>Math.max(1, x)\<close>: NaN if an argument is NaN.\<close>

definition Math_max1 :: "jsnum \<Rightarrow> jsnum" where
  "Math_max1 x =
     (case x of NaN \<Rightarrow> NaN | PosInf \<Rightarrow> PosInf | NegInf \<Rightarrow> Fin 1 | Fin n \<Rightarrow> Fin (max 1 n))"

text \<open>\<open>v || "1"\<close>: the empty string is the only falsy string.\<close>

definition or_one :: "jsstring \<Rightarrow> jsstring" where
  "or_one v = (if v = [] then js ''1'' else v)"

text \<open>Line 77: \<open>Math.max(1, parseInt(countInput.value || "1", 10))\<close>.\<close>

definition print_count :: "jsstring \<Rightarrow> jsnum" where
  "print_count v = Math_max1 (parseInt10 (or_one v))"

text \<open>The decimal digits of a non-negative integer.\<close>

function show_nat :: "int \<Rightarrow> jsstring" where
  "show_nat n =
     (if n < 10 then [of_int (0x30 + n)] else show_nat (n div 10) @ [of_int (0x30 + n mod 10)])"
  by pat_completeness auto
termination
  by (relation "measure nat") auto

declare show_nat.simps [simp del]

text \<open>
  \<open>Number.prototype.toString\<close> of a double whose value is a positive integer \<open>x\<close>. It
  writes the decimal number with the fewest significant digits that still rounds to
  \<open>x\<close> (of two such, the nearer to \<open>x\<close>, then the even one): \<open>shortest x j\<close> looks for it
  among the multiples of \<open>10 ^ j\<close>, for \<open>j\<close> from the number of digits of \<open>x\<close> down. Up to
  21 digits are written in full, longer numbers with an exponent.
\<close>

definition rounds_to :: "int \<Rightarrow> int \<Rightarrow> bool" where
  "rounds_to c x = (0 < c \<and> round_double c = Some x)"

fun shortest :: "int \<Rightarrow> nat \<Rightarrow> int" where
  "shortest x 0 = x"
| "shortest x (Suc j) =
     (let p = 10 ^ Suc j; lo = (x div p) * p; hi = lo + p
      in if rounds_to lo x \<and> rounds_to hi x then
           (if x - lo < hi - x then lo
            else if hi - x < x - lo then hi
            else if even (lo div p) then lo else hi)
         else if rounds_to lo x then lo
         else if rounds_to hi x then hi
         else shortest x j)"

definition number_text_pos :: "int \<Rightarrow> jsstring" where
  "number_text_pos x =
     (let c = shortest x (length (show_nat x));
          n = length (show_nat c);
          ds = rev (dropWhile (\<lambda>d. d = 0x30) (rev (show_nat c)))
      in if n \<le> 21 then show_nat c
         else (if length ds = 1 then ds else hd ds # 0x2E # tl ds) @ js ''e+'' @ show_nat (int n - 1))"

definition number_text :: "int \<Rightarrow> jsstring" where
  "number_text i =
     (if i = 0 then js ''0''
      else if i < 0 then 0x2D # number_text_pos (- i)
      else number_text_pos i)"

text \<open>\<open>JSON.stringify\<close> of a number: a value that is not finite is written \<open>null\<close>.\<close>

definition json_number :: "jsnum \<Rightarrow> jsstring" where
  "json_number x = (case x of Fin n \<Rightarrow> number_text n | _ \<Rightarrow> js ''null'')"

subsection \<open>Values parsed from a JSON body\<close>

text \<open>
  A number that arrives in a JSON body is a double that the script never computes
  with: it converts it to text and, where it stands for \<open>ok\<close>, tests it for truth. Such
  a number is held as the text \<open>Number.prototype.toString\<close> gives for it: 5 as \<open>5\<close>, a
  half as \<open>0.5\<close>, ten to the power 21 as \<open>1e+21\<close>. Zero, of either sign, is \<open>0\<close>.
\<close>

datatype number = Number jsstring

fun number_string :: "number \<Rightarrow> jsstring" where
  "number_string (Number t) = t"

fun number_truthy :: "number \<Rightarrow> bool" where
  "number_truthy (Number t) = (t \<noteq> js ''0'' \<and> t \<noteq> js ''NaN'')"

text \<open>
  What \<open>res.json()\<close> can resolve to, and \<open>undefined\<close>, which reading a missing property
  gives. An object is the list of its own properties, each key once.
\<close>

datatype jsval =
    JUndefined
  | JNull
  | JBool bool
  | JNum number
  | JStr jsstring
  | JArr "jsval list"
  | JObj "(jsstring \<times> jsval) list"

text \<open>A thrown exception, with the text of its \<open>message\<close> property.\<close>

datatype exn = Error jsstring

definition and_then :: "exn + 'a \<Rightarrow> ('a \<Rightarrow> exn + 'b) \<Rightarrow> exn + 'b" where
  "and_then r f = (case r of Inl e \<Rightarrow> Inl e | Inr x \<Rightarrow> f x)"

text \<open>
  Reading property \<open>k\<close> of \<open>v\<close>, for the keys the script reads (\<open>ok\<close>, \<open>printed\<close>,
  \<open>errors\<close>), which no built-in prototype defines: a TypeError on \<open>null\<close> and
  \<open>undefined\<close>, the own property of an object, \<open>undefined\<close> otherwise. The message
  texts are those of V8.
\<close>

definition cannot_read :: "string \<Rightarrow> string \<Rightarrow> exn" where
  "cannot_read what k =
     Error (js ''Cannot read properties of '' @ js what @ js '' (reading '' @ [0x27] @ js k @ [0x27]
            @ js '')'')"

definition get_prop :: "jsval \<Rightarrow> string \<Rightarrow> exn + jsval" where
  "get_prop v k =
     (case v of
        JUndefined \<Rightarrow> Inl (cannot_read ''undefined'' k)
      | JNull \<Rightarrow> Inl (cannot_read ''null'' k)
      | JObj kvs \<Rightarrow> Inr (case map_of kvs (js k) of None \<Rightarrow> JUndefined | Some x \<Rightarrow> x)
      | _ \<Rightarrow> Inr JUndefined)"

definition truthy :: "jsval \<Rightarrow> bool" where
  "truthy v =
     (case v of
        JUndefined \<Rightarrow> False
      | JNull \<Rightarrow> False
      | JBool b \<Rightarrow> b
      | JNum n \<Rightarrow> number_truthy n
      | JStr s \<Rightarrow> s \<noteq> []
      | _ \<Rightarrow> True)"

text \<open>
  \<open>ToString\<close>, as a template literal applies it, and \<open>Array.prototype.join\<close>, which
  writes \<open>null\<close> and \<open>undefined\<close> elements as the empty string. An object parsed from
  JSON has no callable \<open>toString\<close> of its own: if it has such a key the conversion
  throws, otherwise \<open>Object.prototype.toString\<close> answers.
\<close>

fun to_str :: "jsval \<Rightarrow> exn + jsstring"
  and join_items :: "jsstring \<Rightarrow> jsval list \<Rightarrow> exn + jsstring" where
  "to_str JUndefined = Inr (js ''undefined'')"
| "to_str JNull = Inr (js ''null'')"
| "to_str (JBool b) = Inr (if b then js ''true'' else js ''false'')"
| "to_str (JNum n) = Inr (number_string n)"
| "to_str (JStr s) = Inr s"
| "to_str (JArr xs) = join_items (js '','') xs"
| "to_str (JObj kvs) =
     (if map_of kvs (js ''toString'') = None then Inr (js ''[object Object]'')
      else Inl (Error (js ''Cannot convert object to primitive value'')))"
| "join_items sep [] = Inr []"
| "join_items sep (x # xs) =
     (case (if x = JUndefined \<or> x = JNull then Inr [] else to_str x) of
        Inl e \<Rightarrow> Inl e
      | Inr a \<Rightarrow>
          (case join_items sep xs of
             Inl e \<Rightarrow> Inl e
           | Inr b \<Rightarrow> Inr (if xs = [] then a else a @ sep @ b)))"

text \<open>Plain joining of texts with a separator.\<close>

fun joined :: "jsstring \<Rightarrow> jsstring list \<Rightarrow> jsstring" where
  "joined sep [] = []"
| "joined sep [m] = m"
| "joined sep (m # ms) = m @ sep @ joined sep ms"

subsection \<open>URL and JSON encodings\<close>

definition hex_digit :: "bool \<Rightarrow> int \<Rightarrow> code_unit" where
  "hex_digit upper n =
     (if n < 10 then of_int (0x30 + n) else of_int ((if upper then 0x37 else 0x57) + n))"

text \<open>An octet as \<open>%XX\<close>.\<close>

definition percent :: "int \<Rightarrow> jsstring" where
  "percent b = [0x25, hex_digit True (b div 16), hex_digit True (b mod 16)]"

definition is_alnum :: "int \<Rightarrow> bool" where
  "is_alnum n = ((0x30 \<le> n \<and> n \<le> 0x39) \<or> (0x41 \<le> n \<and> n \<le> 0x5A) \<or> (0x61 \<le> n \<and> n \<le> 0x7A))"

text \<open>
  \<open>encodeURIComponent\<close>: letters, digits and the marks \<open>- _ . ! ~ * ' ( )\<close> stay, every
  other code point is written as the escaped octets of its UTF-8 form. A string with an
  unpaired surrogate has no such form: the call throws a URIError.
\<close>

definition uri_unescaped :: "int \<Rightarrow> bool" where
  "uri_unescaped cp = (is_alnum cp \<or> cp \<in> set [0x2D, 0x5F, 0x2E, 0x21, 0x7E, 0x2A, 0x27, 0x28, 0x29])"

definition uri_escape :: "jsstring \<Rightarrow> jsstring" where
  "uri_escape s =
     concat (map (\<lambda>(unpaired, cp). if uri_unescaped cp then [of_int cp]
                                    else concat (map percent (utf8 cp)))
               (code_points s))"

definition encodeURIComponent :: "jsstring \<Rightarrow> exn + jsstring" where
  "encodeURIComponent s =
     (if well_formed s then Inr (uri_escape s) else Inl (Error (js ''URI malformed'')))"

text \<open>
  The application/x-www-form-urlencoded serializer behind
  \<open>URLSearchParams.prototype.toString\<close>. The values are first made well formed (an
  unpaired surrogate becomes U+FFFD); then, octet by octet of the UTF-8 form, a space
  becomes \<open>+\<close>, letters, digits and \<open>* - . _\<close> stay, and the rest is escaped.
\<close>

definition form_octet :: "int \<Rightarrow> jsstring" where
  "form_octet b =
     (if b = 0x20 then [0x2B]
      else if is_alnum b \<or> b \<in> set [0x2A, 0x2D, 0x2E, 0x5F] then [of_int b]
      else percent b)"

definition form_encode :: "jsstring \<Rightarrow> jsstring" where
  "form_encode s =
     concat (map (\<lambda>(unpaired, cp). concat (map form_octet (utf8 (if unpaired then 0xFFFD else cp))))
               (code_points s))"

definition URLSearchParams_toString :: "(jsstring \<times> jsstring) list \<Rightarrow> jsstring" where
  "URLSearchParams_toString kvs =
     joined (js ''&'') (map (\<lambda>(k, v). form_encode k @ js ''='' @ form_encode v) kvs)"

text \<open>
  \<open>JSON.stringify\<close> of a string: the short escapes, \<open>\u\<close> escapes for the other
  control characters and for unpaired surrogates, every other code point as it is.
\<close>

definition json_escape :: "bool \<times> int \<Rightarrow> jsstring" where
  "json_escape c =
     (case c of (unpaired, cp) \<Rightarrow>
        if cp = 0x08 then [0x5C, 0x62]
        else if cp = 0x09 then [0x5C, 0x74]
        else if cp = 0x0A then [0x5C, 0x6E]
        else if cp = 0x0C then [0x5C, 0x66]
        else if cp = 0x0D then [0x5C, 0x72]
        else if cp = 0x22 then [0x5C, 0x22]
        else if cp = 0x5C then [0x5C, 0x5C]
        else if cp < 0x20 \<or> unpaired then
          [0x5C, 0x75, hex_digit False (cp div 0x1000), hex_digit False (cp div 0x100 mod 0x10),
           hex_digit False (cp div 0x10 mod 0x10), hex_digit False (cp mod 0x10)]
        else utf16 cp)"

definition json_string :: "jsstring \<Rightarrow> jsstring" where
  "json_string s = [0x22] @ concat (map json_escape (code_points s)) @ [0x22]"

subsection \<open>The page state\<close>

record product =
  name :: jsstring
  quantity :: number
  measure_unit :: jsstring
  barcode :: jsstring
  mrp :: number
  retail_price :: number

datatype request =
    GET jsstring
  | POST jsstring "(jsstring \<times> jsstring) list" jsstring

text \<open>
  The two script variables of lines 14 and 15, the properties of the eight page elements
  that the script reads or writes, and the browser's side: a clock, the timers that
  are pending (identifier, due time, and the query the callback closed over), the
  requests started so far and the alerts shown so far. Timer identifiers are positive,
  so a stored identifier is truthy. A row of the suggestion list holds its text and the
  product its click handler closed over.
\<close>

record state =
  selectedProduct :: "product option"
  searchTimer :: "nat option"
  productSearch_value :: jsstring
  suggestions_display :: jsstring
  suggestions_rows :: "(jsstring \<times> product) list"
  previewImg_src :: "jsstring option"
  printBtn_disabled :: bool
  printBtn_textContent :: jsstring
  countInput_value :: jsstring
  expInput_value :: jsstring
  storeNameInput_value :: jsstring
  metaDiv_textContent :: jsstring
  clock :: nat
  next_timer_id :: nat
  timers :: "(nat \<times> nat \<times> jsstring) list"
  requests :: "request list"
  alerts :: "jsstring list"

definition clearTimeout :: "nat \<Rightarrow> state \<Rightarrow> state" where
  "clearTimeout i s = s\<lparr>timers := filter (\<lambda>(j, due, q). j \<noteq> i) (timers s)\<rparr>"

text \<open>\<open>setTimeout\<close> with the search callback for query \<open>q\<close>; the identifier it returns
  is \<open>next_timer_id\<close> of the state before.\<close>

definition setTimeout :: "jsstring \<Rightarrow> nat \<Rightarrow> state \<Rightarrow> state" where
  "setTimeout q delay s =
     s\<lparr>timers := timers s @ [(next_timer_id s, clock s + delay, q)],
       next_timer_id := Suc (next_timer_id s)\<rparr>"

subsection \<open>Typeahead search (lines 18 to 42)\<close>

text \<open>The handler of the search box's input event; it reads the value the box now has.\<close>

definition productSearch_oninput :: "state \<Rightarrow> state" where
  "productSearch_oninput s =
     (let q = trim (productSearch_value s);
          s1 = s\<lparr>selectedProduct := None, printBtn_disabled := True,
                 metaDiv_textContent := [], previewImg_src := None\<rparr>;
          s2 = (case searchTimer s1 of
                  None \<Rightarrow> s1
                | Some i \<Rightarrow> if i \<noteq> 0 then clearTimeout i s1 else s1)
      in if q = [] then s2\<lparr>suggestions_display := js ''none''\<rparr>
         else (setTimeout q 180 s2)\<lparr>searchTimer := Some (next_timer_id s2)\<rparr>)"

text \<open>The user edits the search box to \<open>v\<close>: the box takes the value, the handler runs.\<close>

definition search_input :: "jsstring \<Rightarrow> state \<Rightarrow> state" where
  "search_input v s = productSearch_oninput (s\<lparr>productSearch_value := v\<rparr>)"

text \<open>
  The timer callback up to its first \<open>await\<close> (line 29). The argument of \<open>fetch\<close> is
  evaluated first: if \<open>encodeURIComponent\<close> throws, the callback's promise is rejected,
  \<open>fetch\<close> is not called and no request starts. Otherwise the search request starts.
\<close>

definition search_url :: "jsstring \<Rightarrow> jsstring" where
  "search_url q = js ''/api/products?q='' @ uri_escape q"

definition fire :: "nat \<times> nat \<times> jsstring \<Rightarrow> state \<Rightarrow> state" where
  "fire tm s =
     (case tm of (i, due, q) \<Rightarrow>
        (case encodeURIComponent q of
           Inl e \<Rightarrow> s
         | Inr u \<Rightarrow> s\<lparr>requests := requests s @ [GET (js ''/api/products?q='' @ u)]\<rparr>))"

text \<open>
  Time passes by \<open>d\<close> units: the timers that have become due are removed and run, in
  the order they were set (all have the same delay, so that is the order they are due).
\<close>

definition tick :: "nat \<Rightarrow> state \<Rightarrow> state" where
  "tick d s =
     (let t = clock s + d;
          due = filter (\<lambda>(i, due, q). due \<le> t) (timers s);
          rest = filter (\<lambda>(i, due, q). \<not> due \<le> t) (timers s)
      in foldl (\<lambda>s' tm. fire tm s') (s\<lparr>clock := t, timers := rest\<rparr>) due)"

text \<open>
  The rest of the callback (lines 30 to 40), run when the response has been parsed to
  the products \<open>items\<close>; the body is taken to be the array of products the script
  expects. A request or a body that fails rejects the callback's promise before line 31
  and changes nothing.
\<close>

definition row_text :: "product \<Rightarrow> jsstring" where
  "row_text p =
     name p @ js '' '' @ em_dash @ js '' '' @ number_string (quantity p) @ js '' '' @ measure_unit p @
     js '' | '' @ rupee @ number_string (retail_price p)"

definition search_loaded :: "product list option \<Rightarrow> state \<Rightarrow> state" where
  "search_loaded res s =
     (case res of
        None \<Rightarrow> s
      | Some items \<Rightarrow>
          if items = [] then s\<lparr>suggestions_rows := [], suggestions_display := js ''none''\<rparr>
          else s\<lparr>suggestions_rows := map (\<lambda>p. (row_text p, p)) items,
                 suggestions_display := js ''block''\<rparr>)"

subsection \<open>Selection and preview (lines 44 to 70)\<close>

definition preview_url :: "product \<Rightarrow> jsstring \<Rightarrow> jsstring \<Rightarrow> jsstring" where
  "preview_url p store exp =
     js ''/preview?'' @
     URLSearchParams_toString
       [(js ''barcode'', barcode p), (js ''store'', trim store), (js ''exp'', trim exp)]"

definition meta_text :: "product \<Rightarrow> jsstring" where
  "meta_text p =
     js ''Barcode: '' @ barcode p @ js '' | '' @
     js ''QTY: '' @ number_string (quantity p) @ js '' '' @ measure_unit p @ js '' | '' @
     js ''MRP: '' @ rupee @ number_string (mrp p) @ js '' | RP: '' @ rupee @
     number_string (retail_price p)"

text \<open>Assigning the image's \<open>src\<close> makes the browser request the image.\<close>

definition updatePreview :: "state \<Rightarrow> state" where
  "updatePreview s =
     (case selectedProduct s of
        None \<Rightarrow> s
      | Some p \<Rightarrow>
          (let src = preview_url p (storeNameInput_value s) (expInput_value s)
           in s\<lparr>previewImg_src := Some src,
                requests := requests s @ [GET src],
                metaDiv_textContent := meta_text p\<rparr>))"

definition selectProduct :: "product \<Rightarrow> state \<Rightarrow> state" where
  "selectProduct p s =
     updatePreview (s\<lparr>selectedProduct := Some p, productSearch_value := name p,
                      suggestions_display := js ''none'', printBtn_disabled := False\<rparr>)"


text \<open>The user edits the store-name or the expiry field (lines 69 and 70).\<close>

definition storeName_input :: "jsstring \<Rightarrow> state \<Rightarrow> state" where
  "storeName_input v s = updatePreview (s\<lparr>storeNameInput_value := v\<rparr>)"

definition exp_input :: "jsstring \<Rightarrow> state \<Rightarrow> state" where
  "exp_input v s = updatePreview (s\<lparr>expInput_value := v\<rparr>)"

subsection \<open>Print (lines 73 to 103)\<close>

text \<open>The object of lines 75 to 80, with its keys in their order.\<close>

record payload =
  payload_barcode :: jsstring
  payload_count :: jsnum
  payload_store_name :: jsstring
  payload_exp :: jsstring

definition build_payload :: "product \<Rightarrow> state \<Rightarrow> payload" where
  "build_payload p s =
     \<lparr>payload_barcode = barcode p,
      payload_count = print_count (countInput_value s),
      payload_store_name = trim (storeNameInput_value s),
      payload_exp = trim (expInput_value s)\<rparr>"

definition JSON_stringify :: "payload \<Rightarrow> jsstring" where
  "JSON_stringify b =
     js ''{'' @ json_string (js ''barcode'') @ js '':'' @ json_string (payload_barcode b) @
     js '','' @ json_string (js ''count'') @ js '':'' @ json_number (payload_count b) @
     js '','' @ json_string (js ''store_name'') @ js '':'' @ json_string (payload_store_name b) @
     js '','' @ json_string (js ''exp'') @ js '':'' @ json_string (payload_exp b) @ js ''}''"

definition print_request :: "payload \<Rightarrow> request" where
  "print_request b =
     POST (js ''/api/print'') [(js ''Content-Type'', js ''application/json'')] (JSON_stringify b)"

text \<open>
  How the two awaited promises of the try block settle: \<open>fetch\<close> rejects, or it
  resolves to a response with its \<open>ok\<close> flag (a 2xx status), whose \<open>json()\<close> rejects
  (the body is not JSON) or resolves to the parsed value.
\<close>

datatype body = BodyRejected exn | BodyJson jsval

datatype outcome = FetchRejected exn | Responded bool body

text \<open>The handler up to its first \<open>await\<close>, for the selected product \<open>p\<close>.\<close>

definition print_begin :: "product \<Rightarrow> state \<Rightarrow> state" where
  "print_begin p s =
     s\<lparr>printBtn_disabled := True,
       printBtn_textContent := js ''Printing'' @ ellipsis,
       requests := requests s @ [print_request (build_payload p s)]\<rparr>"

text \<open>\<open>data.errors?.join("; ")\<close>.\<close>

definition errors_joined :: "jsval \<Rightarrow> exn + jsval" where
  "errors_joined data =
     and_then (get_prop data ''errors'') (\<lambda>e.
       case e of
         JUndefined \<Rightarrow> Inr JUndefined
       | JNull \<Rightarrow> Inr JUndefined
       | JArr xs \<Rightarrow> and_then (join_items (js ''; '') xs) (\<lambda>t. Inr (JStr t))
       | _ \<Rightarrow> Inl (Error (js ''data.errors?.join is not a function'')))"

definition success_message :: "jsval \<Rightarrow> exn + jsstring" where
  "success_message data =
     and_then (get_prop data ''printed'') (\<lambda>n.
     and_then (to_str n) (\<lambda>ns.
       Inr (js ''Printed '' @ ns @ js '' label(s).'')))"

definition failure_message :: "jsval \<Rightarrow> exn + jsstring" where
  "failure_message data =
     and_then (get_prop data ''printed'') (\<lambda>n.
     and_then (to_str n) (\<lambda>ns.
     and_then (errors_joined data) (\<lambda>j.
     and_then (to_str j) (\<lambda>es.
       Inr (js ''Partial/failed print. Printed: '' @ ns @ js ''. Errors: '' @ es)))))"

text \<open>The try block (lines 86 to 96): the text it alerts, or the exception it throws.\<close>

definition try_block :: "outcome \<Rightarrow> exn + jsstring" where
  "try_block out =
     (case out of
        FetchRejected e \<Rightarrow> Inl e
      | Responded res_ok b \<Rightarrow>
          (case b of
             BodyRejected e \<Rightarrow> Inl e
           | BodyJson data \<Rightarrow>
               if res_ok then
                 and_then (get_prop data ''ok'') (\<lambda>data_ok.
                   if truthy data_ok then success_message data else failure_message data)
               else failure_message data))"

text \<open>The text of the one alert of a print attempt: that of the try block or that of
  the catch clause (line 98).\<close>

definition alert_text :: "outcome \<Rightarrow> jsstring" where
  "alert_text out =
     (case try_block out of
        Inr m \<Rightarrow> m
      | Inl (Error m) \<Rightarrow> js ''Print failed: '' @ m)"

text \<open>The handler from the point where the awaited promises have settled, with the
  finally clause.\<close>

definition print_settle :: "outcome \<Rightarrow> state \<Rightarrow> state" where
  "print_settle out s =
     s\<lparr>alerts := alerts s @ [alert_text out],
       printBtn_textContent := js ''Print'',
       printBtn_disabled := False\<rparr>"

text \<open>
  The click handler run to its end when the request settles as \<open>out\<close>. Other handlers
  may run while the request is pending, and \<open>print_settle\<close> resumes in the state they
  leave; \<open>printBtn_onclick\<close> is the run with none in between.
\<close>

definition printBtn_onclick :: "outcome \<Rightarrow> state \<Rightarrow> state" where
  "printBtn_onclick out s =
     (case selectedProduct s of
        None \<Rightarrow> s
      | Some p \<Rightarrow> print_settle out (print_begin p s))"

subsection \<open>Runs of the search box\<close>

text \<open>
  A run of edits of the search box: each is given with the time that has passed since
  the event before, and the value the box then has.
\<close>

fun run_inputs :: "(nat \<times> jsstring) list \<Rightarrow> state \<Rightarrow> state" where
  "run_inputs [] s = s"
| "run_inputs ((d, v) # evs) s = run_inputs evs (search_input v (tick d s))"

text \<open>The state of the script as it has just loaded, on a page with empty fields. The
  page itself is not part of the script; this state is used in the examples only.\<close>

definition loaded :: state where
  "loaded =
     \<lparr>selectedProduct = None, searchTimer = None, productSearch_value = [],
      suggestions_display = js ''none'', suggestions_rows = [], previewImg_src = None,
      printBtn_disabled = True, printBtn_textContent = js ''Print'', countInput_value = js ''1'',
      expInput_value = [], storeNameInput_value = [], metaDiv_textContent = [],
      clock = 0, next_timer_id = 1, timers = [], requests = [], alerts = []\<rparr>"

definition rice :: product where
  "rice = \<lparr>name = js ''Rice'', quantity = Number (js ''5''), measure_unit = js ''kg'',
           barcode = js ''890 1'', mrp = Number (js ''450''), retail_price = Number (js ''419.5'')\<rparr>"

text \<open>
  The state just after an edit of the search box, or before the first: timer
  identifiers are positive, and the only timer that can be pending is the one
  \<open>searchTimer\<close> names, due one quiet period after the clock's time.
\<close>

definition armed :: "state \<Rightarrow> bool" where
  "armed s =
     (0 < next_timer_id s \<and>
      (case timers s of
         [] \<Rightarrow> True
       | [(i, due, q)] \<Rightarrow> searchTimer s = Some i \<and> i \<noteq> 0 \<and> due = clock s + 180
       | _ \<Rightarrow> False))"

section \<open>Properties\<close>

lemmas handler_defs =
  search_input_def productSearch_oninput_def setTimeout_def clearTimeout_def
  updatePreview_def selectProduct_def storeName_input_def exp_input_def
  print_begin_def print_settle_def printBtn_onclick_def

subsection \<open>The print count\<close>

lemma print_count_examples:
  "print_count [] = Fin 1" "print_count (js ''0'') = Fin 1" "print_count (js ''-3'') = Fin 1"
  "print_count (js ''5'') = Fin 5"
  by code_simp+

lemma bit_length_le: "bit_length n \<le> k \<longleftrightarrow> n < 2 ^ k"
proof (induction k arbitrary: n)
  case 0
  then show ?case by (simp add: bit_length.simps)
next
  case (Suc k)
  show ?case
  proof (cases "n \<le> 0")
    case True
    then have "n < 2 ^ Suc k" by (smt (verit) zero_less_power)
    with True show ?thesis by (simp add: bit_length.simps)
  next
    case False
    then have "bit_length n = Suc (bit_length (n div 2))" by (simp add: bit_length.simps)
    with Suc [of "n div 2"] show ?thesis by auto
  qed
qed

lemma round_double_exact: "m < 2 ^ 53 \<Longrightarrow> round_double m = Some m"
  by (simp add: round_double_def bit_length_le)

text \<open>A digit string from \<open>2 ^ 1024\<close> on is read as infinity, and the count is written \<open>null\<close>.\<close>

lemma round_double_overflow:
  assumes "2 ^ 1024 \<le> m"
  shows "round_double m = None"
proof -
  define bl where "bl = bit_length m"
  define e where "e = bl - 53"
  define q where "q = m div 2 ^ e"
  define q' where "q' = (if 2 ^ (e - 1) < m mod 2 ^ e \<or> (m mod 2 ^ e = 2 ^ (e - 1) \<and> odd q) then q + 1 else q)"
  define A :: int where "A = 2 ^ 52"
  define B :: int where "B = 2 ^ 1024"
  define E :: int where "E = 2 ^ e"
  define P :: int where "P = 2 ^ (bl - 1)"
  have Epos: "0 < E" by (simp add: E_def)
  from assms have "\<not> m < 2 ^ 1024" by simp
  then have big: "1024 < bl" unfolding bl_def using bit_length_le [of m 1024] by simp
  then have e: "bl - 1 = 52 + e" by (simp add: e_def)
  have "\<not> bit_length m \<le> bl - 1" using big by (simp add: bl_def)
  then have Pm: "P \<le> m" unfolding P_def using bit_length_le [of m "bl - 1"] by simp
  have PAE: "P = A * E" unfolding P_def A_def E_def e by (rule power_add)
  have BP: "B \<le> P" unfolding B_def P_def using big by (intro power_increasing) simp_all
  from Pm PAE have "A * E \<le> m" by (simp only:)
  then have "(A * E) div E \<le> m div E" by (rule zdiv_mono1) (rule Epos)
  then have "A \<le> q" using Epos by (simp add: q_def E_def)
  moreover have "q \<le> q'" by (simp add: q'_def)
  ultimately have "A \<le> q'" by (rule order_trans)
  then have "A * E \<le> q' * E" using Epos by (simp add: mult_right_mono)
  with BP PAE have "B \<le> q' * E" by (simp only:)
  then have "\<not> q' * 2 ^ e < 2 ^ 1024" by (simp add: B_def E_def)
  then have over: "1024 < bit_length (q' * 2 ^ e)"
    using bit_length_le [of "q' * 2 ^ e" 1024] by simp
  have long: "\<not> bit_length m \<le> 53" using big by (simp add: bl_def)
  from over [unfolded q'_def q_def e_def bl_def] long show ?thesis
    by (simp add: round_double_def Let_def)
qed


lemma digit_not_ws: "is_digit u \<Longrightarrow> \<not> is_ws u \<and> u \<noteq> 0x2B \<and> u \<noteq> 0x2D"
  by (auto simp: is_digit_def is_ws_def word_le_def)

lemma print_count_overflow:
  assumes "v \<noteq> []" and "list_all is_digit v" and "2 ^ 1024 \<le> digits_val v"
  shows "print_count v = PosInf"
    and "json_number (print_count v) = js ''null''"
proof -
  from assms(1) obtain u us where v: "v = u # us" by (cases v) auto
  with assms(2) have u: "is_digit u" by simp
  have t: "trimStart (u # us) = u # us" using digit_not_ws [OF u] by (simp add: trimStart_def)
  have z: "takeWhile is_digit us = us" using assms(2) by (simp add: list_all_iff v)
  have "parseInt10 v = PosInf"
    using digit_not_ws [OF u] round_double_overflow [OF assms(3)] u
    by (simp add: parseInt10_def v t z Let_def)
  then show "print_count v = PosInf"
    using assms(1) by (simp add: print_count_def or_one_def Math_max1_def)
  then show "json_number (print_count v) = js ''null''"
    by (simp add: json_number_def)
qed

text \<open>A count beyond 2^53 is rounded to a double, and is written as the double is.\<close>

lemma print_count_rounds:
  "print_count (js ''9007199254740993'') = Fin 9007199254740992"
  "print_count (js ''18446744073709551616'') = Fin 18446744073709551616"
  "json_number (Fin 18446744073709551616) = js ''18446744073709552000''"
  "json_number (Fin (10 ^ 21)) = js ''1e+21''"
  by code_simp+

lemma print_count_range:
  "print_count v = NaN \<or> print_count v = PosInf \<or> (\<exists>n. print_count v = Fin n \<and> 1 \<le> n)"
  by (cases "parseInt10 (or_one v)") (simp_all add: print_count_def Math_max1_def)

lemma print_count_NaN_iff: "print_count v = NaN \<longleftrightarrow> parseInt10 (or_one v) = NaN"
  by (cases "parseInt10 (or_one v)") (simp_all add: print_count_def Math_max1_def)

text \<open>
  C1. The claim is that every value of the count field is submitted as an integer of at
  least 1, the value \<open>abc\<close> as 1. With \<open>abc\<close> in the count field, \<open>parseInt\<close> finds no
  digit and gives NaN, \<open>Math.max(1, NaN)\<close> is NaN, and the count of the request is
  NaN, which the body of the request writes as \<open>null\<close>.
\<close>

theorem count_abc_is_NaN:
  "payload_count (build_payload p (s\<lparr>countInput_value := js ''abc''\<rparr>)) = NaN
   \<and> json_number (payload_count (build_payload p (s\<lparr>countInput_value := js ''abc''\<rparr>))) = js ''null''"
proof -
  have "print_count (js ''abc'') = NaN" by code_simp
  then show ?thesis by (simp add: build_payload_def json_number_def)
qed

theorem count_abc_is_NaN_witness:
  "payload_count (build_payload rice (loaded\<lparr>countInput_value := js ''abc''\<rparr>)) = NaN
   \<and> json_number (payload_count (build_payload rice (loaded\<lparr>countInput_value := js ''abc''\<rparr>))) = js ''null''"
  using count_abc_is_NaN [of rice loaded] by blast

subsection \<open>Evaluated examples\<close>

lemma trim_examples:
  "trim (js ''r'') = js ''r''" "trim (js ''ri'') = js ''ri''" "trim (js ''ric '') = js ''ric''"
  "trim (js ''  '') = []" "trim (js '' Sri Vel '') = js ''Sri Vel''" "trim [] = []"
  "trim (js ''12/2026'') = js ''12/2026''"
  by code_simp+

lemma search_url_ric: "search_url (js ''ric'') = js ''/api/products?q=ric''"
  by code_simp


text \<open>The page after the product \<open>rice\<close> has been picked on the freshly loaded page.\<close>

lemma picked_rice:
  "selectProduct rice loaded =
     loaded\<lparr>selectedProduct := Some rice, productSearch_value := js ''Rice'',
            printBtn_disabled := False,
            previewImg_src := Some (js ''/preview?barcode=890+1&store=&exp=''),
            requests := [GET (js ''/preview?barcode=890+1&store=&exp='')],
            metaDiv_textContent := meta_text rice\<rparr>"
proof -
  have "preview_url rice [] [] = js ''/preview?barcode=890+1&store=&exp=''"
    by code_simp
  then show ?thesis
    by (simp add: selectProduct_def updatePreview_def loaded_def rice_def Let_def)
qed

subsection \<open>Print: clean-up and alerts\<close>

text \<open>
  C3. When the awaited request settles, however it settles (a response of either kind,
  a rejected request, a body that does not parse), the handler resumes, and at its end
  the print button is enabled and its label is \<open>Print\<close>. This holds from any state the
  handler resumes in, and so for the click on a page with a selection.
\<close>

theorem print_cleanup:
  "\<not> printBtn_disabled (print_settle out s') \<and> printBtn_textContent (print_settle out s') = js ''Print''
   \<and> (selectedProduct s \<noteq> None \<longrightarrow>
        \<not> printBtn_disabled (printBtn_onclick out s)
        \<and> printBtn_textContent (printBtn_onclick out s) = js ''Print'')"
  by (auto simp: print_settle_def printBtn_onclick_def)

theorem print_cleanup_witness:
  "selectedProduct (selectProduct rice loaded) \<noteq> None
   \<and> \<not> printBtn_disabled
         (printBtn_onclick (FetchRejected (Error (js ''Failed to fetch''))) (selectProduct rice loaded))
   \<and> printBtn_textContent
         (printBtn_onclick (FetchRejected (Error (js ''Failed to fetch''))) (selectProduct rice loaded))
       = js ''Print''
   \<and> printBtn_disabled (print_begin rice (selectProduct rice loaded))"
proof -
  have sel: "selectedProduct (selectProduct rice loaded) \<noteq> None"
    by (simp add: picked_rice)
  have busy: "printBtn_disabled (print_begin rice (selectProduct rice loaded))"
    by (simp add: print_begin_def)
  from print_cleanup [of "FetchRejected (Error (js ''Failed to fetch''))" _ "selectProduct rice loaded"] sel busy
  show ?thesis by blast
qed

lemma onclick_alerts:
  "selectedProduct s \<noteq> None \<Longrightarrow> alerts (printBtn_onclick out s) = alerts s @ [alert_text out]"
  by (auto simp: printBtn_onclick_def print_settle_def print_begin_def)

lemma join_items_strings: "join_items sep (map JStr ms) = Inr (joined sep ms)"
  by (induction sep ms rule: joined.induct) simp_all

text \<open>
  C4. A completed print request whose body parses to null makes the try block throw,
  and so does one whose \<open>errors\<close> is present and not a list: the notification is then the
  one of the catch clause, \<open>Print failed\<close>, not the partial/failure message, also for a
  status that is not 2xx and for \<open>ok\<close> false.
\<close>

theorem print_result_alert_counterexample:
  "alerts (printBtn_onclick (Responded False (BodyJson JNull)) (selectProduct rice loaded)) =
     [js ''Print failed: Cannot read properties of null (reading '' @ [0x27] @ js ''printed''
      @ [0x27] @ js '')'']
   \<and> alerts (printBtn_onclick
        (Responded True (BodyJson (JObj [(js ''ok'', JBool False),
           (js ''printed'', JNum (Number (js ''2''))), (js ''errors'', JStr (js ''jam''))])))
        (selectProduct rice loaded)) =
     [js ''Print failed: data.errors?.join is not a function'']"
proof -
  have sel: "selectedProduct (selectProduct rice loaded) \<noteq> None"
    by (simp add: picked_rice)
  have al: "alerts (selectProduct rice loaded) = []"
    by (simp add: picked_rice) (simp add: loaded_def)
  have a: "alert_text (Responded False (BodyJson JNull)) =
      js ''Print failed: Cannot read properties of null (reading '' @ [0x27] @ js ''printed''
      @ [0x27] @ js '')''"
    by code_simp
  have b: "alert_text (Responded True (BodyJson (JObj [(js ''ok'', JBool False),
           (js ''printed'', JNum (Number (js ''2''))), (js ''errors'', JStr (js ''jam''))]))) =
      js ''Print failed: data.errors?.join is not a function''"
    by code_simp
  from sel al a b show ?thesis by (simp add: onclick_alerts)
qed

text \<open>
  C4, as it holds. A response whose body parses to an object with \<open>printed\<close> a number
  and \<open>errors\<close> absent, null or a list of texts gives exactly one notification. With a
  2xx status and \<open>ok\<close> true (any truthy value) it is the success message with the
  printed count; otherwise it is the partial/failure message with the printed count and
  the errors joined by \<open>; \<close>. An absent list does not throw: its place in the message
  reads \<open>undefined\<close>.
\<close>

theorem print_result_alert:
  assumes "get_prop data ''ok'' = Inr okv"
    and "get_prop data ''printed'' = Inr (JNum n)"
    and "get_prop data ''errors'' = Inr ev"
    and "ev = JUndefined \<or> ev = JNull \<or> ev = JArr (map JStr ms)"
  shows "alert_text (Responded res_ok (BodyJson data)) =
           (if res_ok \<and> truthy okv then js ''Printed '' @ number_string n @ js '' label(s).''
            else js ''Partial/failed print. Printed: '' @ number_string n @ js ''. Errors: '' @
                 (if ev = JArr (map JStr ms) then joined (js ''; '') ms else js ''undefined''))
     \<and> alerts (print_settle (Responded res_ok (BodyJson data)) s') =
         alerts s' @ [alert_text (Responded res_ok (BodyJson data))]
     \<and> (selectedProduct s \<noteq> None \<longrightarrow>
          alerts (printBtn_onclick (Responded res_ok (BodyJson data)) s) =
            alerts s @ [alert_text (Responded res_ok (BodyJson data))])"
proof -
  have msg: "alert_text (Responded res_ok (BodyJson data)) =
           (if res_ok \<and> truthy okv then js ''Printed '' @ number_string n @ js '' label(s).''
            else js ''Partial/failed print. Printed: '' @ number_string n @ js ''. Errors: '' @
                 (if ev = JArr (map JStr ms) then joined (js ''; '') ms else js ''undefined''))"
    using assms
    by (auto simp: alert_text_def try_block_def and_then_def success_message_def
        failure_message_def errors_joined_def join_items_strings)
  have settle: "alerts (print_settle (Responded res_ok (BodyJson data)) s') =
         alerts s' @ [alert_text (Responded res_ok (BodyJson data))]"
    by (simp add: print_settle_def)
  have click: "alerts (printBtn_onclick (Responded res_ok (BodyJson data)) s) =
            alerts s @ [alert_text (Responded res_ok (BodyJson data))]"
    if "selectedProduct s \<noteq> None"
    using that by (auto simp: printBtn_onclick_def print_settle_def print_begin_def)
  from msg settle click show ?thesis by blast
qed

theorem print_result_alert_witness:
  "alerts (printBtn_onclick
      (Responded True (BodyJson (JObj [(js ''ok'', JBool True), (js ''printed'', JNum (Number (js ''5'')))])))
      (selectProduct rice loaded)) = [js ''Printed 5 label(s).'']
   \<and> alerts (printBtn_onclick
      (Responded True (BodyJson (JObj [(js ''ok'', JBool False),
         (js ''printed'', JNum (Number (js ''2''))), (js ''errors'', JArr [JStr (js ''jam'')])])))
      (selectProduct rice loaded)) = [js ''Partial/failed print. Printed: 2. Errors: jam'']
   \<and> alerts (printBtn_onclick
      (Responded False (BodyJson (JObj [(js ''ok'', JBool True), (js ''printed'', JNum (Number (js ''2'')))])))
      (selectProduct rice loaded)) = [js ''Partial/failed print. Printed: 2. Errors: undefined'']"
proof -
  let ?s = "selectProduct rice loaded"
  let ?d1 = "JObj [(js ''ok'', JBool True), (js ''printed'', JNum (Number (js ''5'')))]"
  let ?d2 = "JObj [(js ''ok'', JBool False), (js ''printed'', JNum (Number (js ''2''))),
                   (js ''errors'', JArr [JStr (js ''jam'')])]"
  let ?d3 = "JObj [(js ''ok'', JBool True), (js ''printed'', JNum (Number (js ''2'')))]"
  have sel: "selectedProduct ?s \<noteq> None" by (simp add: picked_rice)
  have al: "alerts ?s = []" by (simp add: picked_rice) (simp add: loaded_def)
  have g1: "get_prop ?d1 ''ok'' = Inr (JBool True)"
    "get_prop ?d1 ''printed'' = Inr (JNum (Number (js ''5'')))"
    "get_prop ?d1 ''errors'' = Inr JUndefined"
    by code_simp+
  have g2: "get_prop ?d2 ''ok'' = Inr (JBool False)"
    "get_prop ?d2 ''printed'' = Inr (JNum (Number (js ''2'')))"
    "get_prop ?d2 ''errors'' = Inr (JArr (map JStr [js ''jam'']))"
    by code_simp+
  have g3: "get_prop ?d3 ''ok'' = Inr (JBool True)"
    "get_prop ?d3 ''printed'' = Inr (JNum (Number (js ''2'')))"
    "get_prop ?d3 ''errors'' = Inr JUndefined"
    by code_simp+
  have a: "alerts (printBtn_onclick (Responded True (BodyJson ?d1)) ?s) = [js ''Printed 5 label(s).'']"
    using print_result_alert [OF g1, where ms = "[]" and res_ok = True and s = ?s] sel al
    by (simp add: truthy_def js_def)
  have b: "alerts (printBtn_onclick (Responded True (BodyJson ?d2)) ?s) =
      [js ''Partial/failed print. Printed: 2. Errors: jam'']"
    using print_result_alert [OF g2, where ms = "[js ''jam'']" and res_ok = True and s = ?s] sel al
    by (simp add: truthy_def js_def)
  have c: "alerts (printBtn_onclick (Responded False (BodyJson ?d3)) ?s) =
      [js ''Partial/failed print. Printed: 2. Errors: undefined'']"
    using print_result_alert [OF g3, where ms = "[]" and res_ok = False and s = ?s] sel al
    by (simp add: truthy_def js_def)
  from a b c show ?thesis by blast
qed

text \<open>
  C10. A response whose body does not parse as JSON, whatever its status: \<open>json()\<close>
  rejects, the catch clause alerts \<open>Print failed: \<close> followed by the exception's
  message, which is the only alert, and the finally clause enables the button and
  restores its label.
\<close>

theorem invalid_body_alert:
  "alert_text (Responded res_ok (BodyRejected (Error m))) = js ''Print failed: '' @ m
   \<and> alerts (print_settle (Responded res_ok (BodyRejected (Error m))) s') =
       alerts s' @ [js ''Print failed: '' @ m]
   \<and> \<not> printBtn_disabled (print_settle (Responded res_ok (BodyRejected (Error m))) s')
   \<and> printBtn_textContent (print_settle (Responded res_ok (BodyRejected (Error m))) s') = js ''Print''
   \<and> (selectedProduct s \<noteq> None \<longrightarrow>
        alerts (printBtn_onclick (Responded res_ok (BodyRejected (Error m))) s) =
          alerts s @ [js ''Print failed: '' @ m]
        \<and> \<not> printBtn_disabled (printBtn_onclick (Responded res_ok (BodyRejected (Error m))) s)
        \<and> printBtn_textContent (printBtn_onclick (Responded res_ok (BodyRejected (Error m))) s) = js ''Print'')"
  by (auto simp: print_settle_def print_begin_def printBtn_onclick_def alert_text_def try_block_def)

theorem invalid_body_alert_witness:
  "alerts (printBtn_onclick (Responded False (BodyRejected (Error (js ''Unexpected token <''))))
             (selectProduct rice loaded)) = [js ''Print failed: Unexpected token <'']
   \<and> \<not> printBtn_disabled (printBtn_onclick (Responded False (BodyRejected (Error (js ''Unexpected token <''))))
             (selectProduct rice loaded))
   \<and> printBtn_textContent (printBtn_onclick (Responded False (BodyRejected (Error (js ''Unexpected token <''))))
             (selectProduct rice loaded)) = js ''Print''"
proof -
  have sel: "selectedProduct (selectProduct rice loaded) \<noteq> None"
    by (simp add: picked_rice)
  have al: "alerts (selectProduct rice loaded) = []"
    by (simp add: picked_rice) (simp add: loaded_def)
  from invalid_body_alert [of False "js ''Unexpected token <''" _ "selectProduct rice loaded"] sel al
  show ?thesis by (simp add: js_def)
qed

subsection \<open>Selection, preview and the search box\<close>

text \<open>A string without surrogates is well formed, and its code points are its code units.\<close>

lemma not_surrogate_code_points:
  "\<forall>u \<in> set t. \<not> leading u \<and> \<not> trailing u \<Longrightarrow> code_points t = map (\<lambda>u. (False, uint u)) t"
  by (induction t rule: code_points.induct) simp_all

lemma well_formed_no_surrogate:
  "\<forall>u \<in> set t. \<not> leading u \<and> \<not> trailing u \<Longrightarrow> well_formed t"
  by (simp add: well_formed_def not_surrogate_code_points list_all_iff)

lemma plain_not_surrogate:
  assumes "uint u < 0x80"
  shows "\<not> leading u \<and> \<not> trailing u"
  using assms by (simp add: leading_def trailing_def word_le_def)

text \<open>A value made of letters, digits and the marks \<open>* - . _\<close> is written as it is.\<close>

lemma form_encode_plain:
  assumes "\<forall>u \<in> set t. is_alnum (uint u) \<or> uint u \<in> set [0x2A, 0x2D, 0x2E, 0x5F]"
  shows "form_encode t = t"
proof -
  have small: "\<forall>u \<in> set t. uint u < 0x80"
    using assms by (auto simp: is_alnum_def)
  then have cps: "code_points t = map (\<lambda>u. (False, uint u)) t"
    by (intro not_surrogate_code_points) (simp add: plain_not_surrogate)
  have one: "concat (map form_octet (utf8 (uint u))) = [u]" if "u \<in> set t" for u
  proof -
    from small that have "uint u < 0x80" by blast
    then have "utf8 (uint u) = [uint u]" by (simp add: utf8_def)
    moreover from assms that have "uint u \<noteq> 0x20" by (auto simp: is_alnum_def)
    moreover from assms that have "is_alnum (uint u) \<or> uint u \<in> set [0x2A, 0x2D, 0x2E, 0x5F]" by blast
    ultimately show ?thesis by (simp add: form_octet_def)
  qed
  have "concat (map (\<lambda>u. concat (map form_octet (utf8 (uint u)))) t) = concat (map (\<lambda>u. [u]) t)"
    using one by (metis (mono_tags, lifting) map_eq_conv)
  then show ?thesis by (simp add: form_encode_def cps comp_def)
qed

lemma encodeURIComponent_cases:
  "encodeURIComponent q = (if well_formed q then Inr (uri_escape q) else Inl (Error (js ''URI malformed'')))"
  by (simp add: encodeURIComponent_def)


text \<open>
  C5. In every state: an edit of the search box leaves no selection and the print
  button disabled; selecting a product makes it the selection and enables the button;
  and a click on the print button with no selection changes nothing (no request, no
  alert, no change of the button).
\<close>

theorem selection_guards_print:
  "selectedProduct (search_input v s) = None \<and> printBtn_disabled (search_input v s)
   \<and> selectedProduct (selectProduct p s) = Some p \<and> \<not> printBtn_disabled (selectProduct p s)
   \<and> (selectedProduct s = None \<longrightarrow> printBtn_onclick out s = s)"
  by (simp add: handler_defs Let_def split: option.splits)

theorem selection_guards_print_witness:
  "selectedProduct (search_input (js ''ri'') (selectProduct rice loaded)) = None
   \<and> printBtn_disabled (search_input (js ''ri'') (selectProduct rice loaded))
   \<and> selectedProduct (selectProduct rice loaded) = Some rice
   \<and> \<not> printBtn_disabled (selectProduct rice loaded)
   \<and> printBtn_onclick (Responded True (BodyJson JNull)) (search_input (js ''ri'') (selectProduct rice loaded))
       = search_input (js ''ri'') (selectProduct rice loaded)"
  using selection_guards_print [where v = "js ''ri''" and s = "selectProduct rice loaded" and p = rice]
    selection_guards_print [where v = "js ''ri''" and s = loaded and p = rice]
    selection_guards_print [where s = "search_input (js ''ri'') (selectProduct rice loaded)"
      and out = "Responded True (BodyJson JNull)"]
  by simp

text \<open>
  The button alone does not guard the print action. An edit of the search box while a
  print request is pending clears the selection, and the finally clause then enables
  the button all the same; it is the test at the head of the click handler that makes
  the click do nothing.
\<close>

lemma enabled_without_selection:
  "selectedProduct (print_settle out (search_input v (print_begin rice (selectProduct rice loaded)))) = None
   \<and> \<not> printBtn_disabled (print_settle out (search_input v (print_begin rice (selectProduct rice loaded))))
   \<and> printBtn_onclick out'
        (print_settle out (search_input v (print_begin rice (selectProduct rice loaded)))) =
       print_settle out (search_input v (print_begin rice (selectProduct rice loaded)))"
proof -
  let ?s = "search_input v (print_begin rice (selectProduct rice loaded))"
  have "selectedProduct ?s = None"
    by (simp add: search_input_def productSearch_oninput_def setTimeout_def clearTimeout_def
        Let_def split: option.splits)
  then show ?thesis
    by (simp add: print_settle_def printBtn_onclick_def)
qed

text \<open>
  C6. An edit of the search box whose value trims to the empty string hides the
  suggestion list, calls \<open>setTimeout\<close> not at all (no identifier is used up and no
  timer is added to those pending) and starts no request.
\<close>

theorem empty_query_hides:
  assumes "trim v = []"
  shows "suggestions_display (search_input v s) = js ''none''
     \<and> next_timer_id (search_input v s) = next_timer_id s
     \<and> set (timers (search_input v s)) \<subseteq> set (timers s)
     \<and> requests (search_input v s) = requests s"
  using assms by (auto simp: handler_defs Let_def split: option.splits)

theorem empty_query_hides_witness:
  "trim (js ''  '') = []
   \<and> suggestions_display (search_input (js ''  '') (search_loaded (Some [rice]) loaded)) = js ''none''
   \<and> suggestions_display (search_loaded (Some [rice]) loaded) = js ''block''
   \<and> next_timer_id (search_input (js ''  '') (search_loaded (Some [rice]) loaded)) = 1
   \<and> requests (search_input (js ''  '') (search_loaded (Some [rice]) loaded)) = []"
proof -
  have t: "trim (js ''  '') = []" by (rule trim_examples)
  have b: "suggestions_display (search_loaded (Some [rice]) loaded) = js ''block''"
    "next_timer_id (search_loaded (Some [rice]) loaded) = 1"
    "requests (search_loaded (Some [rice]) loaded) = []"
    by (simp_all add: search_loaded_def loaded_def)
  from empty_query_hides [OF t, of "search_loaded (Some [rice]) loaded"] t b
  show ?thesis by simp
qed





text \<open>
  C9. Every edit of the search box, whatever its value, empties the metadata region
  and removes the preview image's source (and leaves no selection).
\<close>

theorem search_input_clears:
  "metaDiv_textContent (search_input v s) = [] \<and> previewImg_src (search_input v s) = None
   \<and> selectedProduct (search_input v s) = None"
  by (simp add: handler_defs Let_def split: option.splits)

theorem search_input_clears_witness:
  "metaDiv_textContent (selectProduct rice loaded) \<noteq> []
   \<and> previewImg_src (selectProduct rice loaded) = Some (js ''/preview?barcode=890+1&store=&exp='')
   \<and> metaDiv_textContent (search_input (js ''ri'') (selectProduct rice loaded)) = []
   \<and> previewImg_src (search_input (js ''ri'') (selectProduct rice loaded)) = None
   \<and> metaDiv_textContent (search_input [] (selectProduct rice loaded)) = []
   \<and> previewImg_src (search_input [] (selectProduct rice loaded)) = None"
  using search_input_clears [of "js ''ri''" "selectProduct rice loaded"]
    search_input_clears [of "[]" "selectProduct rice loaded"]
  by (simp add: picked_rice meta_text_def js_def)

subsection \<open>Debounce of the search\<close>

lemma tick_no_timers:
  "timers s = [] \<Longrightarrow> tick d s = s\<lparr>clock := clock s + d, timers := []\<rparr>"
  by (simp add: tick_def Let_def)

lemma tick_not_due:
  "timers s = [(i, due, q)] \<Longrightarrow> clock s + d < due \<Longrightarrow> tick d s = s\<lparr>clock := clock s + d\<rparr>"
  by (simp add: tick_def Let_def)

lemma fire_cases:
  "fire (i, due, q) s =
     (if well_formed q then s\<lparr>requests := requests s @ [GET (search_url q)]\<rparr> else s)"
  by (simp add: fire_def encodeURIComponent_def search_url_def)

lemma tick_due:
  "timers s = [(i, due, q)] \<Longrightarrow> due \<le> clock s + d \<Longrightarrow>
   tick d s =
     s\<lparr>clock := clock s + d, timers := [],
       requests := (if well_formed q then requests s @ [GET (search_url q)] else requests s)\<rparr>"
  by (simp add: tick_def Let_def fire_cases)

lemma search_input_pending:
  assumes "0 < next_timer_id s"
    and "timers s = [] \<or> (\<exists>i due q. timers s = [(i, due, q)] \<and> searchTimer s = Some i \<and> i \<noteq> 0)"
  shows "requests (search_input v s) = requests s"
    and "clock (search_input v s) = clock s"
    and "next_timer_id (search_input v s) = (if trim v = [] then next_timer_id s else Suc (next_timer_id s))"
    and "timers (search_input v s) =
           (if trim v = [] then [] else [(next_timer_id s, clock s + 180, trim v)])"
    and "trim v \<noteq> [] \<Longrightarrow> searchTimer (search_input v s) = Some (next_timer_id s)"
  using assms
  by (auto simp: search_input_def productSearch_oninput_def setTimeout_def clearTimeout_def Let_def
      split: option.splits)

lemma armed_cases:
  "armed s \<Longrightarrow> timers s = [] \<or> (\<exists>i q. timers s = [(i, clock s + 180, q)] \<and> searchTimer s = Some i \<and> i \<noteq> 0)"
  by (auto simp: armed_def split: list.splits)

lemma armed_step:
  assumes "armed s" and "d < 180"
  shows "armed (search_input v (tick d s))"
    and "requests (search_input v (tick d s)) = requests s"
    and "timers (search_input v (tick d s)) =
           (if trim v = [] then [] else [(next_timer_id s, clock s + d + 180, trim v)])"
proof -
  let ?t = "tick d s"
  from assms(1) have pos: "0 < next_timer_id s" by (simp add: armed_def)
  from armed_cases [OF assms(1)]
  have t: "requests ?t = requests s \<and> clock ?t = clock s + d \<and> next_timer_id ?t = next_timer_id s
      \<and> (timers ?t = [] \<or> (\<exists>i due q. timers ?t = [(i, due, q)] \<and> searchTimer ?t = Some i \<and> i \<noteq> 0))"
  proof
    assume "timers s = []"
    then show ?thesis by (simp add: tick_no_timers)
  next
    assume "\<exists>i q. timers s = [(i, clock s + 180, q)] \<and> searchTimer s = Some i \<and> i \<noteq> 0"
    then obtain i q where tm: "timers s = [(i, clock s + 180, q)]" and st: "searchTimer s = Some i" "i \<noteq> 0"
      by blast
    from assms(2) have "clock s + d < clock s + 180" by simp
    from tick_not_due [OF tm this] tm st show ?thesis by simp
  qed
  then have pre: "0 < next_timer_id ?t"
    "timers ?t = [] \<or> (\<exists>i due q. timers ?t = [(i, due, q)] \<and> searchTimer ?t = Some i \<and> i \<noteq> 0)"
    using pos by simp_all
  note si = search_input_pending [OF pre]
  show "requests (search_input v ?t) = requests s" using si(1) t by simp
  show tm': "timers (search_input v ?t) =
           (if trim v = [] then [] else [(next_timer_id s, clock s + d + 180, trim v)])"
    using si(4) t by simp
  show "armed (search_input v ?t)"
  proof (cases "trim v = []")
    case True
    then show ?thesis using si(3) si(4) pos t by (simp add: armed_def)
  next
    case False
    then show ?thesis using si(2) si(3) si(4) si(5) pos t by (simp add: armed_def)
  qed
qed

lemma run_inputs_armed:
  assumes "armed s" and "\<forall>(d, v) \<in> set evs. d < 180"
  shows "armed (run_inputs evs s) \<and> requests (run_inputs evs s) = requests s"
  using assms
proof (induction evs arbitrary: s)
  case Nil
  then show ?case by simp
next
  case (Cons e evs)
  obtain d v where e: "e = (d, v)" by (cases e)
  with Cons.prems have d: "d < 180" by simp
  from armed_step [OF Cons.prems(1) d, of v] Cons.IH [of "search_input v (tick d s)"] Cons.prems(2)
  show ?case by (simp add: e)
qed

lemma run_inputs_snoc:
  "run_inputs (evs @ [(d, v)]) s = search_input v (tick d (run_inputs evs s))"
  by (induction evs arbitrary: s) auto

lemma armed_no_timers: "0 < next_timer_id s \<Longrightarrow> timers s = [] \<Longrightarrow> armed s"
  by (simp add: armed_def)

lemma first_input_armed:
  assumes "0 < next_timer_id s" and "timers s = []"
  shows "armed (search_input v (tick d s))"
    and "requests (search_input v (tick d s)) = requests s"
    and "timers (search_input v (tick d s)) =
           (if trim v = [] then [] else [(next_timer_id s, clock s + d + 180, trim v)])"
    and "clock (search_input v (tick d s)) = clock s + d"
proof -
  let ?t = "tick d s"
  have t: "?t = s\<lparr>clock := clock s + d, timers := []\<rparr>"
    using assms(2) by (rule tick_no_timers)
  have pre: "0 < next_timer_id ?t" "timers ?t = [] \<or> (\<exists>i due q. timers ?t = [(i, due, q)] \<and> searchTimer ?t = Some i \<and> i \<noteq> 0)"
    using assms t by simp_all
  note si = search_input_pending [OF pre]
  show "requests (search_input v ?t) = requests s" using si(1) t by simp
  show "timers (search_input v ?t) =
           (if trim v = [] then [] else [(next_timer_id s, clock s + d + 180, trim v)])"
    using si(4) t by simp
  show "clock (search_input v (tick d s)) = clock s + d" using si(2) t by simp
  show "armed (search_input v ?t)"
  proof (cases "trim v = []")
    case True
    then show ?thesis using si(3) si(4) assms t by (simp add: armed_def)
  next
    case False
    then show ?thesis using si(2) si(3) si(4) si(5) assms t by (simp add: armed_def)
  qed
qed


lemma run_inputs_burst:
  assumes "0 < next_timer_id s" and "timers s = []" and "\<forall>(d, v) \<in> set evs. d < 180"
  shows "armed (run_inputs (e # evs) s)"
    and "requests (run_inputs (e # evs) s) = requests s"
    and "trim (snd (last (e # evs))) = [] \<Longrightarrow> timers (run_inputs (e # evs) s) = []"
    and "trim (snd (last (e # evs))) \<noteq> [] \<Longrightarrow>
         \<exists>i due. timers (run_inputs (e # evs) s) = [(i, due, trim (snd (last (e # evs))))]"
proof -
  obtain d0 v0 where e: "e = (d0, v0)" by (cases e)
  let ?s1 = "search_input v0 (tick d0 s)"
  note first = first_input_armed [OF assms(1,2), of v0 d0]
  have run: "run_inputs (e # evs) s = run_inputs evs ?s1" by (simp add: e)
  from run_inputs_armed [OF first(1) assms(3)] first(2)
  show a: "armed (run_inputs (e # evs) s)" and r: "requests (run_inputs (e # evs) s) = requests s"
    by (simp_all add: run)
  have tm: "\<exists>i due. timers (run_inputs (e # evs) s) =
      (if trim (snd (last (e # evs))) = [] then [] else [(i, due, trim (snd (last (e # evs))))])"
  proof (cases evs rule: rev_cases)
    case Nil
    then show ?thesis using first(3) by (simp add: e)
  next
    case (snoc evs' l)
    obtain d v where l: "l = (d, v)" by (cases l)
    let ?s' = "run_inputs evs' ?s1"
    from assms(3) snoc l have small: "\<forall>(d, v) \<in> set evs'. d < 180" and d: "d < 180" by auto
    from run_inputs_armed [OF first(1) small] have "armed ?s'" by simp
    from armed_step(3) [OF this d, of v]
    show ?thesis by (auto simp add: e snoc l run_inputs_snoc)
  qed
  show "trim (snd (last (e # evs))) = [] \<Longrightarrow> timers (run_inputs (e # evs) s) = []"
    using tm by auto
  show "trim (snd (last (e # evs))) \<noteq> [] \<Longrightarrow>
         \<exists>i due. timers (run_inputs (e # evs) s) = [(i, due, trim (snd (last (e # evs))))]"
    using tm by auto
qed

text \<open>
  C2. The claim is that every burst of edits that ends in a non-empty trimmed query
  gives exactly one search request. A burst whose final query holds an unpaired
  surrogate gives none: when the timer fires, \<open>encodeURIComponent\<close> throws before
  \<open>fetch\<close> is called. Here the quiet period has passed, no timer is left, and no
  request has been started.
\<close>

theorem debounce_single_request_counterexample:
  "trim (js ''ri'' @ [0xD800]) \<noteq> []
   \<and> requests (tick 180 (run_inputs [(0, js ''r''), (100, js ''ri'' @ [0xD800])] loaded)) = []
   \<and> timers (tick 180 (run_inputs [(0, js ''r''), (100, js ''ri'' @ [0xD800])] loaded)) = []"
  by code_simp

text \<open>
  C2, as it holds. A run of edits of the search box, started with no timer pending, in
  which every edit after the first comes less than 180 time units after the one before,
  and after which the box holds a value that does not trim to the empty string. During
  the run no request is started, and at its end one timer is pending: the one of the
  last edit, due 180 units later, so every timer set earlier was cleared before it was
  due. As long as less than 180 units have passed since the last edit no request has
  been started. Once 180 have passed no timer is left, and exactly one request has been
  started, for the trimmed final value, if that value is well formed; if it holds an
  unpaired surrogate, none has.
\<close>

theorem debounce_single_request:
  assumes "0 < next_timer_id s" and "timers s = []"
    and "\<forall>(d, v) \<in> set evs. d < 180"
    and "trim (snd (last (e # evs))) \<noteq> []"
  shows "requests (run_inputs (e # evs) s) = requests s
     \<and> (\<exists>i. timers (run_inputs (e # evs) s) =
           [(i, clock (run_inputs (e # evs) s) + 180, trim (snd (last (e # evs))))])
     \<and> (w < 180 \<longrightarrow> requests (tick w (run_inputs (e # evs) s)) = requests s)
     \<and> (180 \<le> w \<longrightarrow>
          timers (tick w (run_inputs (e # evs) s)) = []
          \<and> requests (tick w (run_inputs (e # evs) s)) =
              (if well_formed (trim (snd (last (e # evs))))
               then requests s @ [GET (search_url (trim (snd (last (e # evs)))))]
               else requests s))"
proof -
  let ?r = "run_inputs (e # evs) s" and ?q = "trim (snd (last (e # evs)))"
  note b = run_inputs_burst [OF assms(1-3), of e]
  from b(4) [OF assms(4)] obtain i due where tm: "timers ?r = [(i, due, ?q)]" by blast
  with b(1) have due: "due = clock ?r + 180" by (simp add: armed_def)
  have r: "requests ?r = requests s" by (rule b(2))
  have one: "\<exists>i. timers ?r = [(i, clock ?r + 180, ?q)]" using tm due by simp
  have early: "requests (tick w ?r) = requests s" if "w < 180"
    using tick_not_due [OF tm, of w] that due b(2) by simp
  have late: "requests (tick w ?r) =
      (if well_formed ?q then requests s @ [GET (search_url ?q)] else requests s)" if "180 \<le> w"
    using tick_due [OF tm, of w] that due b(2) by simp
  have gone: "timers (tick w ?r) = []" if "180 \<le> w"
    using tick_due [OF tm, of w] that due by simp
  from r one early late gone show ?thesis by blast
qed

theorem debounce_single_request_witness:
  "requests (run_inputs [(0, js ''r''), (100, js ''ri''), (179, js ''ric '')] loaded) = []
   \<and> requests (tick 179 (run_inputs [(0, js ''r''), (100, js ''ri''), (179, js ''ric '')] loaded)) = []
   \<and> requests (tick 180 (run_inputs [(0, js ''r''), (100, js ''ri''), (179, js ''ric '')] loaded)) =
       [GET (js ''/api/products?q=ric'')]
   \<and> timers (tick 180 (run_inputs [(0, js ''r''), (100, js ''ri''), (179, js ''ric '')] loaded)) = []"
proof -
  let ?evs = "[(100 :: nat, js ''ri''), (179, js ''ric '')]"
  have h1: "0 < next_timer_id loaded" and h2: "timers loaded = []"
    by (simp_all add: loaded_def)
  have h3: "\<forall>(d, v) \<in> set ?evs. d < 180" by simp
  have q: "trim (snd (last ((0 :: nat, js ''r'') # ?evs))) = js ''ric''"
    by (simp add: trim_examples)
  have ne: "js ''ric'' \<noteq> []" by (simp add: js_def)
  have h4: "trim (snd (last ((0 :: nat, js ''r'') # ?evs))) \<noteq> []"
    using q ne by simp
  have wf: "well_formed (js ''ric'')" by code_simp
  have r: "requests loaded = []" by (simp add: loaded_def)
  from debounce_single_request [OF h1 h2 h3 h4, of 179]
    debounce_single_request [OF h1 h2 h3 h4, of 180] q wf r
  show ?thesis by (simp add: search_url_ric)
qed

text \<open>A gap of a full quiet period is not a burst: the earlier timer fires too.\<close>

lemma slow_typing_two_requests:
  "requests (tick 180 (run_inputs [(0, js ''r''), (180, js ''ri'')] loaded)) =
     [GET (js ''/api/products?q=r''), GET (js ''/api/products?q=ri'')]"
  by code_simp

end
